theory Spec2Isabelle
  imports Complex_Main
begin

section \<open>Scene catalog\<close>

text \<open>
  The viewer of \<^verbatim>\<open>src/src/App.js\<close> (first variant in the file, the one with the
  responsive field of view and the pinch gesture).  JavaScript strings are modelled as
  \<^typ>\<open>string\<close>; scene ids come from the constant list or from
  \<^verbatim>\<open>window.location.pathname\<close>, which is percent-encoded ASCII.
\<close>

definition SCENES :: "string list" where
  "SCENES = [''aurora'', ''mountains'', ''tropical_sea'', ''underwater_ruins'']"

text \<open>The object under \<^verbatim>\<open>faces\<close>; its keys right, left, top, bottom, front and back
  carry the prefix \<open>face_\<close> here.\<close>

record faces =
  face_right :: string
  face_left :: string
  face_top :: string
  face_bottom :: string
  face_front :: string
  face_back :: string

record scene =
  scene_id :: string
  name :: string
  layout :: string
  scene_faces :: faces

text \<open>\<^verbatim>\<open>String.prototype.split\<close> with a one-character separator: the pieces between
  the separators, empty pieces included; the empty string gives one empty piece.\<close>

fun split_on :: "char \<Rightarrow> string \<Rightarrow> string list" where
  "split_on sep [] = [[]]"
| "split_on sep (c # cs) =
     (if c = sep then [] # split_on sep cs
      else (case split_on sep cs of
              w # ws \<Rightarrow> (c # w) # ws
            | [] \<Rightarrow> [[c]]))"

text \<open>\<^verbatim>\<open>Array.prototype.join\<close> with a separator string.\<close>

fun join :: "string \<Rightarrow> string list \<Rightarrow> string" where
  "join sep [] = []"
| "join sep [w] = w"
| "join sep (w # v # ws) = w @ sep @ join sep (v # ws)"

text \<open>\<^verbatim>\<open>toUpperCase\<close> on one ASCII character: the letters a to z are mapped to A to Z,
  every other ASCII character is kept.\<close>

definition toUpperCase :: "char \<Rightarrow> char" where
  "toUpperCase c =
     (case map_of (zip ''abcdefghijklmnopqrstuvwxyz'' ''ABCDEFGHIJKLMNOPQRSTUVWXYZ'') c of
        Some u \<Rightarrow> u
      | None \<Rightarrow> c)"

text \<open>The arrow function \<^verbatim>\<open>w => w.charAt(0).toUpperCase() + w.slice(1)\<close>;
  \<^verbatim>\<open>charAt(0)\<close> of the empty string is the empty string.\<close>

fun capitalize :: "string \<Rightarrow> string" where
  "capitalize [] = []"
| "capitalize (c # cs) = toUpperCase c # cs"

definition makeScene :: "string \<Rightarrow> scene" where
  "makeScene ident =
     (let base = ''/scenes/'' @ ident in
      \<lparr> scene_id = ident,
        name = join '' '' (map capitalize (split_on CHR ''_'' ident)),
        layout = base @ ''/layout.png'',
        scene_faces = \<lparr>
          face_right = base @ ''/right.png'',
          face_left = base @ ''/left.png'',
          face_top = base @ ''/top.png'',
          face_bottom = base @ ''/bottom.png'',
          face_front = base @ ''/front.png'',
          face_back = base @ ''/back.png'' \<rparr> \<rparr>)"

text \<open>\<^verbatim>\<open>null\<close> is \<^term>\<open>None\<close>.\<close>

definition findItemById :: "string \<Rightarrow> scene option" where
  "findItemById ident = (if ident \<in> set SCENES then Some (makeScene ident) else None)"

text \<open>The array that \<^verbatim>\<open>CubeViewer\<close> hands to the cube texture loader: the face
  paths of a descriptor in the loader's order.\<close>

definition face_paths :: "faces \<Rightarrow> string list" where
  "face_paths f = [face_right f, face_left f, face_top f, face_bottom f, face_front f, face_back f]"

text \<open>Modelled from the spec: the sampler \<^verbatim>\<open>sample_synccube.py\<close> that the
  \<^verbatim>\<open>run.sh\<close> scripts call is not part of the sources; section 6 of the
  specification lists the files it writes into its \<^verbatim>\<open>--save_dir\<close>.\<close>

definition sampler_outputs :: "string list" where
  "sampler_outputs = [''right.png'', ''left.png'', ''top.png'', ''bottom.png'',
                      ''front.png'', ''back.png'', ''layout.png'']"

text \<open>The seven image paths of a descriptor: the six faces in loader order, then the
  layout thumbnail.\<close>

definition image_paths :: "scene \<Rightarrow> string list" where
  "image_paths d = face_paths (scene_faces d) @ [layout d]"

section \<open>Router\<close>

text \<open>
  The mount effect of \<^verbatim>\<open>App\<close>:
  \<^verbatim>\<open>parts = pathname.split("/").filter(Boolean)\<close>, then
  \<^verbatim>\<open>if (parts[0] === "viewer" && parts[1]) { loaded = findItemById(parts[1]);
  if (loaded) setSelected(loaded) }\<close>.  The function takes the path and the current
  selection and returns the selection after the effect.  An index beyond the end of
  \<^verbatim>\<open>parts\<close> reads \<^verbatim>\<open>undefined\<close>, which fails both tests.
\<close>

definition path_parts :: "string \<Rightarrow> string list" where
  "path_parts pathname = filter (\<lambda>p. p \<noteq> []) (split_on CHR ''/'' pathname)"

definition loadFromUrl :: "string \<Rightarrow> scene option \<Rightarrow> scene option" where
  "loadFromUrl pathname selected =
     (case path_parts pathname of
        p0 # p1 # _ \<Rightarrow>
          (if p0 = ''viewer'' \<and> p1 \<noteq> [] then
             (case findItemById p1 of
                Some loaded \<Rightarrow> Some loaded
              | None \<Rightarrow> selected)
           else selected)
      | _ \<Rightarrow> selected)"

section \<open>Vectors and quaternions of the rendering library\<close>

text \<open>
  JavaScript numbers are modelled as \<^typ>\<open>real\<close>: exact arithmetic, no rounding, no
  NaN and no infinities.  The one place where the infinities and NaN of the doubles decide
  what the program does, the overflow in the pinch handler, has a model of its own in the
  section on the pinch handler over doubles.  The vector and quaternion operations that \<^verbatim>\<open>rotate\<close> calls
  belong to three.js; they are written here with the formulas of that library
  (\<^verbatim>\<open>Vector3.sub\<close>, \<^verbatim>\<open>Vector3.add\<close>, \<^verbatim>\<open>Vector3.applyQuaternion\<close>,
  \<^verbatim>\<open>Quaternion.setFromAxisAngle\<close>, \<^verbatim>\<open>Quaternion.multiply\<close>).
\<close>

datatype vector3 = Vector3 (vec_x: real) (vec_y: real) (vec_z: real)

datatype quaternion = Quaternion (quat_x: real) (quat_y: real) (quat_z: real) (quat_w: real)

fun sub :: "vector3 \<Rightarrow> vector3 \<Rightarrow> vector3" where
  "sub (Vector3 ax ay az) (Vector3 bx by bz) = Vector3 (ax - bx) (ay - by) (az - bz)"

fun add :: "vector3 \<Rightarrow> vector3 \<Rightarrow> vector3" where
  "add (Vector3 ax ay az) (Vector3 bx by bz) = Vector3 (ax + bx) (ay + by) (az + bz)"

fun multiplyScalar :: "vector3 \<Rightarrow> real \<Rightarrow> vector3" where
  "multiplyScalar (Vector3 ax ay az) k = Vector3 (ax * k) (ay * k) (az * k)"

fun dot :: "vector3 \<Rightarrow> vector3 \<Rightarrow> real" where
  "dot (Vector3 ax ay az) (Vector3 bx by bz) = ax * bx + ay * by + az * bz"

fun cross :: "vector3 \<Rightarrow> vector3 \<Rightarrow> vector3" where
  "cross (Vector3 ax ay az) (Vector3 bx by bz) =
     Vector3 (ay * bz - az * by) (az * bx - ax * bz) (ax * by - ay * bx)"

text \<open>\<^verbatim>\<open>Vector3.length\<close>.\<close>

definition vlength :: "vector3 \<Rightarrow> real" where
  "vlength v = sqrt (dot v v)"

fun setFromAxisAngle :: "vector3 \<Rightarrow> real \<Rightarrow> quaternion" where
  "setFromAxisAngle (Vector3 ax ay az) angle =
     (let halfAngle = angle / 2; s = sin halfAngle
      in Quaternion (ax * s) (ay * s) (az * s) (cos halfAngle))"

text \<open>\<^verbatim>\<open>a.multiply(b)\<close> is the Hamilton product with \<open>a\<close> on the left.\<close>

fun multiply :: "quaternion \<Rightarrow> quaternion \<Rightarrow> quaternion" where
  "multiply (Quaternion qax qay qaz qaw) (Quaternion qbx qby qbz qbw) =
     Quaternion (qax * qbw + qaw * qbx + qay * qbz - qaz * qby)
                (qay * qbw + qaw * qby + qaz * qbx - qax * qbz)
                (qaz * qbw + qaw * qbz + qax * qby - qay * qbx)
                (qaw * qbw - qax * qbx - qay * qby - qaz * qbz)"

fun applyQuaternion :: "vector3 \<Rightarrow> quaternion \<Rightarrow> vector3" where
  "applyQuaternion (Vector3 vx vy vz) (Quaternion qx qy qz qw) =
     (let tx = 2 * (qy * vz - qz * vy);
          ty = 2 * (qz * vx - qx * vz);
          tz = 2 * (qx * vy - qy * vx)
      in Vector3 (vx + qw * tx + qy * tz - qz * ty)
                 (vy + qw * ty + qz * tx - qx * tz)
                 (vz + qw * tz + qx * ty - qy * tx))"

section \<open>Camera, control handle and pinch state\<close>

definition DESKTOP_FOV :: real where
  "DESKTOP_FOV = 70"

definition MOBILE_FOV :: real where
  "MOBILE_FOV = 85"

definition INITIAL_CAMERA_POSITION :: vector3 where
  "INITIAL_CAMERA_POSITION = Vector3 0 0 (1 / 10)"

definition INITIAL_TARGET :: vector3 where
  "INITIAL_TARGET = Vector3 0 0 0"

definition ZOOM_SENSITIVITY :: real where
  "ZOOM_SENSITIVITY = 15 / 100"

record touch =
  clientX :: real
  clientY :: real

record camera =
  fov :: real
  position :: vector3

text \<open>The orbit control handle.  Its \<^verbatim>\<open>object\<close> is the default camera of the canvas,
  the same object that \<^verbatim>\<open>useThree\<close> gives to \<^verbatim>\<open>FovZoomHandler\<close>, so the viewer
  below holds one camera and the handle holds only its target.\<close>

record controls =
  target :: vector3

text \<open>The calls into the rendering library and the browser whose effect is not part of
  this program.  They are recorded in call order and not carried out: in particular
  \<^verbatim>\<open>controls.update()\<close> of the handle, which \<^verbatim>\<open>App\<close> mounts with
  \<^verbatim>\<open>autoRotate\<close> and \<^verbatim>\<open>autoRotateSpeed={0.5}\<close>, turns the camera about the up-axis
  through the target by \<open>2\<pi>/3600 * 0.5\<close> on every call; the camera position of this
  model is the one the program itself has written.\<close>

datatype lib_call =
    UpdateProjectionMatrix
  | LookAt vector3
  | ControlsUpdate
  | PreventDefault

text \<open>\<^verbatim>\<open>controlsRef.current\<close> and \<^verbatim>\<open>initialTouchDistance.current\<close> are
  \<^verbatim>\<open>null\<close> (\<^term>\<open>None\<close>) or hold a value.\<close>

record viewer =
  camera :: camera
  controlsRef :: "controls option"
  initialTouchDistance :: "real option"
  calls :: "lib_call list"

text \<open>The viewer right after a scene is mounted on a wide screen: the canvas creates
  the camera with \<^verbatim>\<open>DESKTOP_FOV\<close> at \<^verbatim>\<open>INITIAL_CAMERA_POSITION\<close>, the handle is
  attached with the library's default target, the origin.\<close>

definition initial_viewer :: viewer where
  "initial_viewer =
     \<lparr> camera = \<lparr> fov = DESKTOP_FOV, position = INITIAL_CAMERA_POSITION \<rparr>,
       controlsRef = Some \<lparr> target = Vector3 0 0 0 \<rparr>,
       initialTouchDistance = None,
       calls = [] \<rparr>"

section \<open>Zoom by wheel and pinch\<close>

text \<open>\<^verbatim>\<open>getDistance\<close> reads \<^verbatim>\<open>touches[0]\<close> and \<^verbatim>\<open>touches[1]\<close>; with fewer than
  two touches the second read is \<^verbatim>\<open>undefined\<close> and the property access throws
  (\<^term>\<open>None\<close>).  Both handlers call it only behind the test for two touches.\<close>

fun getDistance :: "touch list \<Rightarrow> real option" where
  "getDistance (t0 # t1 # _) =
     (let dx = clientX t0 - clientX t1;
          dy = clientY t0 - clientY t1
      in Some (sqrt (dx * dx + dy * dy)))"
| "getDistance _ = None"

definition handleTouchStart :: "touch list \<Rightarrow> viewer \<Rightarrow> viewer" where
  "handleTouchStart touches s =
     (if length touches = 2
      then s\<lparr> initialTouchDistance := getDistance touches \<rparr>
      else s\<lparr> initialTouchDistance := None \<rparr>)"

definition handleTouchMove :: "touch list \<Rightarrow> viewer \<Rightarrow> viewer" where
  "handleTouchMove touches s =
     (if length touches = 2 \<and> initialTouchDistance s \<noteq> None then
        (case (initialTouchDistance s, getDistance touches) of
           (Some initialDistance, Some currentDistance) \<Rightarrow>
             (let deltaDistance = initialDistance - currentDistance;
                  zoomFactor = deltaDistance * ZOOM_SENSITIVITY;
                  fov1 = fov (camera s) + zoomFactor;
                  fov2 = min (max fov1 30) 100
              in s\<lparr> camera := (camera s)\<lparr> fov := fov2 \<rparr>,
                    initialTouchDistance := Some currentDistance,
                    calls := calls s @ [PreventDefault, UpdateProjectionMatrix] \<rparr>)
         | _ \<Rightarrow> s)
      else s)"

definition handleTouchEnd :: "viewer \<Rightarrow> viewer" where
  "handleTouchEnd s = s\<lparr> initialTouchDistance := None \<rparr>"

definition handleWheel :: "real \<Rightarrow> viewer \<Rightarrow> viewer" where
  "handleWheel deltaY s =
     (let fov1 = fov (camera s) + deltaY * ZOOM_SENSITIVITY;
          fov2 = min (max fov1 30) 100
      in s\<lparr> camera := (camera s)\<lparr> fov := fov2 \<rparr>,
            calls := calls s @ [UpdateProjectionMatrix] \<rparr>)"

section \<open>Button controls\<close>

text \<open>\<^verbatim>\<open>rotate\<close> of \<^verbatim>\<open>ArrowControls\<close>, named \<open>rotate_view\<close> here (the list
  library has a \<open>rotate\<close> of its own).  The position of the result is the one written by
  \<^verbatim>\<open>camera.position.add(target)\<close>; the movement that the closing
  \<^verbatim>\<open>controls.update()\<close> adds on the auto-rotating handle is not applied.\<close>

text \<open>The local \<^verbatim>\<open>quaternion\<close> of \<^verbatim>\<open>rotate\<close>:
  \<^verbatim>\<open>quaternionX.multiply(quaternionY)\<close>, the rotation that the call applies to the
  camera position relative to the target.\<close>

definition rotation_quaternion :: "real \<Rightarrow> real \<Rightarrow> quaternion" where
  "rotation_quaternion angleX angleY =
     multiply (setFromAxisAngle (Vector3 0 1 0) angleX)
              (setFromAxisAngle (Vector3 1 0 0) angleY)"


definition rotate_view :: "real \<Rightarrow> real \<Rightarrow> viewer \<Rightarrow> viewer" where
  "rotate_view angleX angleY s =
     (case controlsRef s of
        None \<Rightarrow> s
      | Some ctl \<Rightarrow>
          (let quaternionX = setFromAxisAngle (Vector3 0 1 0) angleX;
               quaternionY = setFromAxisAngle (Vector3 1 0 0) angleY;
               quaternion = multiply quaternionX quaternionY;
               p1 = sub (position (camera s)) (target ctl);
               p2 = applyQuaternion p1 quaternion;
               p3 = add p2 (target ctl)
           in s\<lparr> camera := (camera s)\<lparr> position := p3 \<rparr>,
                 calls := calls s @ [LookAt (target ctl), ControlsUpdate] \<rparr>))"

definition zoom :: "real \<Rightarrow> viewer \<Rightarrow> viewer" where
  "zoom factor s =
     (case controlsRef s of
        None \<Rightarrow> s
      | Some ctl \<Rightarrow>
          (let fov1 = fov (camera s) + factor;
               fov2 = min (max fov1 30) 100
           in s\<lparr> camera := (camera s)\<lparr> fov := fov2 \<rparr>,
                 calls := calls s @ [UpdateProjectionMatrix] \<rparr>))"

text \<open>\<^verbatim>\<open>revertView\<close> reads \<^verbatim>\<open>window.innerWidth\<close>; it is the first argument here.\<close>

definition revertView :: "int \<Rightarrow> viewer \<Rightarrow> viewer" where
  "revertView innerWidth s =
     (case controlsRef s of
        None \<Rightarrow> s
      | Some ctl \<Rightarrow>
          (let defaultFov = (if innerWidth < 640 then MOBILE_FOV else DESKTOP_FOV)
           in s\<lparr> camera := (camera s)\<lparr> position := INITIAL_CAMERA_POSITION, fov := defaultFov \<rparr>,
                 controlsRef := Some (ctl\<lparr> target := INITIAL_TARGET \<rparr>),
                 calls := calls s @ [UpdateProjectionMatrix, ControlsUpdate] \<rparr>))"

section \<open>Input events\<close>

text \<open>One constructor for each listener and each kind of button; the buttons of the
  grid call \<^verbatim>\<open>rotate\<close> with \<open>\<plusminus>0.1\<close> on one axis and \<^verbatim>\<open>zoom\<close> with \<open>\<plusminus>5\<close>.\<close>

datatype event =
    Wheel real
  | TouchStart "touch list"
  | TouchMove "touch list"
  | TouchEnd
  | RotateButton real real
  | ZoomButton real
  | RevertButton int

fun step :: "event \<Rightarrow> viewer \<Rightarrow> viewer" where
  "step (Wheel deltaY) s = handleWheel deltaY s"
| "step (TouchStart touches) s = handleTouchStart touches s"
| "step (TouchMove touches) s = handleTouchMove touches s"
| "step TouchEnd s = handleTouchEnd s"
| "step (RotateButton angleX angleY) s = rotate_view angleX angleY s"
| "step (ZoomButton factor) s = zoom factor s"
| "step (RevertButton innerWidth) s = revertView innerWidth s"

fun run :: "event list \<Rightarrow> viewer \<Rightarrow> viewer" where
  "run [] s = s"
| "run (e # es) s = run es (step e s)"

text \<open>The view state of the specification: field of view, camera position and orbit
  target (absent while the handle is detached).\<close>

definition view_state :: "viewer \<Rightarrow> real \<times> vector3 \<times> vector3 option" where
  "view_state s = (fov (camera s), position (camera s), map_option target (controlsRef s))"

text \<open>The camera position relative to the orbit target.  \<^verbatim>\<open>rotate\<close> ends with
  \<^verbatim>\<open>camera.lookAt(target)\<close>, which turns the camera to look from its position
  at the target, so this vector (negated) is the direction the camera faces afterwards.\<close>

definition relative_position :: "viewer \<Rightarrow> vector3 option" where
  "relative_position s =
     map_option (\<lambda>ctl. sub (position (camera s)) (target ctl)) (controlsRef s)"

section \<open>Rotation as the specification words it\<close>

text \<open>The rotation of a vector about a unit axis by an angle (Rodrigues' formula).\<close>

definition rotate_about :: "vector3 \<Rightarrow> real \<Rightarrow> vector3 \<Rightarrow> vector3" where
  "rotate_about axis angle v =
     add (add (multiplyScalar v (cos angle)) (multiplyScalar (cross axis v) (sin angle)))
         (multiplyScalar axis (dot axis v * (1 - cos angle)))"

text \<open>The operation of section 4.2 of the specification: the yaw about the world up-axis
  and the pitch about the world right-axis are combined into one rotation, the pitch on
  the right of the product (so it reaches the vector first); the rotation is applied to
  the camera position relative to the target; then the camera is turned to the target
  and the handle is resynchronised.\<close>

definition rotate_spec :: "real \<Rightarrow> real \<Rightarrow> viewer \<Rightarrow> viewer" where
  "rotate_spec yawDelta pitchDelta s =
     (case controlsRef s of
        None \<Rightarrow> s
      | Some ctl \<Rightarrow>
          (let relative = sub (position (camera s)) (target ctl);
               rotated = rotate_about (Vector3 0 1 0) yawDelta
                           (rotate_about (Vector3 1 0 0) pitchDelta relative)
           in s\<lparr> camera := (camera s)\<lparr> position := add rotated (target ctl) \<rparr>,
                 calls := calls s @ [LookAt (target ctl), ControlsUpdate] \<rparr>))"

text \<open>The viewer after six presses of the zoom-out button on a freshly mounted scene:
  the field of view has reached its upper bound.\<close>

definition zoomed_out :: viewer where
  "zoomed_out =
     run [ZoomButton 5, ZoomButton 5, ZoomButton 5, ZoomButton 5, ZoomButton 5, ZoomButton 5]
       initial_viewer"

section \<open>The pinch handler over doubles\<close>

text \<open>
  The numbers of the pinch handler once more, now with the values of an IEEE 754 double
  that exact reals lack: a finite value, the two infinities and NaN.  A finite result
  whose magnitude reaches \<open>2^1024 - 2^970\<close>, from where rounding to nearest gives an
  infinity, overflows; below that bound results are kept exact (rounding to 53 bits and
  the sign of zero are not modelled).  The operations are \<^verbatim>\<open>+\<close>, \<^verbatim>\<open>-\<close>,
  \<^verbatim>\<open>*\<close>, \<^verbatim>\<open>Math.sqrt\<close>, \<^verbatim>\<open>Math.max\<close> and \<^verbatim>\<open>Math.min\<close> of
  JavaScript; the last two return NaN as soon as one argument is NaN.
\<close>

datatype number = Finite real | PosInfinity | NegInfinity | NaN

definition overflow_bound :: real where
  "overflow_bound = 2 ^ 1024 - 2 ^ 970"

definition rounded :: "real \<Rightarrow> number" where
  "rounded r =
     (if overflow_bound \<le> r then PosInfinity
      else if r \<le> - overflow_bound then NegInfinity
      else Finite r)"

fun js_add :: "number \<Rightarrow> number \<Rightarrow> number" where
  "js_add NaN _ = NaN"
| "js_add _ NaN = NaN"
| "js_add PosInfinity NegInfinity = NaN"
| "js_add NegInfinity PosInfinity = NaN"
| "js_add PosInfinity _ = PosInfinity"
| "js_add _ PosInfinity = PosInfinity"
| "js_add NegInfinity _ = NegInfinity"
| "js_add _ NegInfinity = NegInfinity"
| "js_add (Finite a) (Finite b) = rounded (a + b)"

fun js_negate :: "number \<Rightarrow> number" where
  "js_negate (Finite a) = Finite (- a)"
| "js_negate PosInfinity = NegInfinity"
| "js_negate NegInfinity = PosInfinity"
| "js_negate NaN = NaN"

definition js_sub :: "number \<Rightarrow> number \<Rightarrow> number" where
  "js_sub a b = js_add a (js_negate b)"

fun js_sign :: "number \<Rightarrow> real" where
  "js_sign (Finite a) = sgn a"
| "js_sign PosInfinity = 1"
| "js_sign NegInfinity = - 1"
| "js_sign NaN = 0"

text \<open>An infinity times zero is NaN; otherwise a product with an infinity is the
  infinity of the product's sign.\<close>

fun js_mul :: "number \<Rightarrow> number \<Rightarrow> number" where
  "js_mul NaN _ = NaN"
| "js_mul _ NaN = NaN"
| "js_mul (Finite a) (Finite b) = rounded (a * b)"
| "js_mul a b =
     (if js_sign a * js_sign b = 0 then NaN
      else if 0 < js_sign a * js_sign b then PosInfinity
      else NegInfinity)"

fun Math_sqrt :: "number \<Rightarrow> number" where
  "Math_sqrt (Finite a) = (if a < 0 then NaN else Finite (sqrt a))"
| "Math_sqrt PosInfinity = PosInfinity"
| "Math_sqrt NegInfinity = NaN"
| "Math_sqrt NaN = NaN"

fun Math_max :: "number \<Rightarrow> number \<Rightarrow> number" where
  "Math_max NaN _ = NaN"
| "Math_max _ NaN = NaN"
| "Math_max PosInfinity _ = PosInfinity"
| "Math_max _ PosInfinity = PosInfinity"
| "Math_max NegInfinity b = b"
| "Math_max a NegInfinity = a"
| "Math_max (Finite a) (Finite b) = Finite (max a b)"

fun Math_min :: "number \<Rightarrow> number \<Rightarrow> number" where
  "Math_min NaN _ = NaN"
| "Math_min _ NaN = NaN"
| "Math_min NegInfinity _ = NegInfinity"
| "Math_min _ NegInfinity = NegInfinity"
| "Math_min PosInfinity b = b"
| "Math_min a PosInfinity = a"
| "Math_min (Finite a) (Finite b) = Finite (min a b)"

text \<open>A touch point, and the two cells the pinch handlers read and write:
  \<^verbatim>\<open>camera.fov\<close> and \<^verbatim>\<open>initialTouchDistance.current\<close>.\<close>

record touch_ieee =
  clientX_ieee :: number
  clientY_ieee :: number

record pinch_ieee =
  fov_ieee :: number
  initialTouchDistance_ieee :: "number option"

text \<open>\<^verbatim>\<open>getDistance\<close>, \<^verbatim>\<open>handleTouchStart\<close> and \<^verbatim>\<open>handleTouchMove\<close> as above,
  statement by statement, with the arithmetic of doubles.\<close>

fun getDistance_ieee :: "touch_ieee list \<Rightarrow> number option" where
  "getDistance_ieee (t0 # t1 # _) =
     (let dx = js_sub (clientX_ieee t0) (clientX_ieee t1);
          dy = js_sub (clientY_ieee t0) (clientY_ieee t1)
      in Some (Math_sqrt (js_add (js_mul dx dx) (js_mul dy dy))))"
| "getDistance_ieee _ = None"

definition handleTouchStart_ieee :: "touch_ieee list \<Rightarrow> pinch_ieee \<Rightarrow> pinch_ieee" where
  "handleTouchStart_ieee touches s =
     (if length touches = 2
      then s\<lparr> initialTouchDistance_ieee := getDistance_ieee touches \<rparr>
      else s\<lparr> initialTouchDistance_ieee := None \<rparr>)"

definition handleTouchMove_ieee :: "touch_ieee list \<Rightarrow> pinch_ieee \<Rightarrow> pinch_ieee" where
  "handleTouchMove_ieee touches s =
     (if length touches = 2 \<and> initialTouchDistance_ieee s \<noteq> None then
        (case (initialTouchDistance_ieee s, getDistance_ieee touches) of
           (Some initialDistance, Some currentDistance) \<Rightarrow>
             (let deltaDistance = js_sub initialDistance currentDistance;
                  zoomFactor = js_mul deltaDistance (Finite ZOOM_SENSITIVITY);
                  fov1 = js_add (fov_ieee s) zoomFactor;
                  fov2 = Math_min (Math_max fov1 (Finite 30)) (Finite 100)
              in s\<lparr> fov_ieee := fov2, initialTouchDistance_ieee := Some currentDistance \<rparr>)
         | _ \<Rightarrow> s)
      else s)"

text \<open>The two cells right after a scene is mounted on a wide screen, and a touch list of
  two points with finite coordinates.\<close>

definition initial_pinch :: pinch_ieee where
  "initial_pinch = \<lparr> fov_ieee = Finite DESKTOP_FOV, initialTouchDistance_ieee = None \<rparr>"

definition two_touches :: "real \<Rightarrow> real \<Rightarrow> real \<Rightarrow> real \<Rightarrow> touch_ieee list" where
  "two_touches x0 y0 x1 y1 =
     [\<lparr> clientX_ieee = Finite x0, clientY_ieee = Finite y0 \<rparr>,
      \<lparr> clientX_ieee = Finite x1, clientY_ieee = Finite y1 \<rparr>]"

section \<open>Catalog and router: properties\<close>

lemma split_on_nonempty: "split_on sep s \<noteq> []"
  by (induction s) (auto split: list.splits)

lemma path_parts_nonempty: "p \<in> set (path_parts pathname) \<Longrightarrow> p \<noteq> []"
  by (simp add: path_parts_def)

text \<open>
  Claim C5.  The lookup returns a descriptor exactly for the ids of the fixed list and
  \<^verbatim>\<open>null\<close> for every other id; it is a pure function.  For \<open>aurora\<close> the
  descriptor has six face paths, all different, and the six faces and the layout all
  lie under \<^verbatim>\<open>/scenes/aurora/\<close>; \<open>not_a_scene\<close> is not found.
\<close>

theorem findItemById_known_ids:
  "(findItemById ident = None) = (ident \<notin> set SCENES)
   \<and> findItemById ident = (if ident \<in> set [''aurora'', ''mountains'', ''tropical_sea'',
                                             ''underwater_ruins'']
                            then Some (makeScene ident) else None)
   \<and> (\<exists>d. findItemById ''aurora'' = Some d
          \<and> length (face_paths (scene_faces d)) = 6
          \<and> distinct (face_paths (scene_faces d))
          \<and> list_all (\<lambda>p. take 15 p = ''/scenes/aurora/'') (image_paths d))
   \<and> findItemById ''not_a_scene'' = None"
  by (simp add: findItemById_def SCENES_def makeScene_def face_paths_def image_paths_def)

text \<open>
  Claim C6.  The mount effect selects a scene exactly when the path has at least two
  non-empty segments, the first is the route marker \<open>viewer\<close> and the second is an id
  of the catalog; in every other case the selection is left as it was.  So
  \<^verbatim>\<open>/viewer/aurora\<close> selects \<open>aurora\<close>, while \<^verbatim>\<open>/viewer/unknown_scene\<close> and
  \<^verbatim>\<open>/\<close> leave the selection unchanged (none at load time).
\<close>

theorem loadFromUrl_selects:
  "loadFromUrl pathname selected =
     (let parts = path_parts pathname in
      if 2 \<le> length parts \<and> parts ! 0 = ''viewer'' \<and> parts ! 1 \<in> set SCENES
      then Some (makeScene (parts ! 1)) else selected)
   \<and> path_parts pathname = filter (\<lambda>p. p \<noteq> []) (split_on CHR ''/'' pathname)
   \<and> map_option scene_id (loadFromUrl ''/viewer/aurora'' selected) = Some ''aurora''
   \<and> loadFromUrl ''/viewer/unknown_scene'' selected = selected
   \<and> loadFromUrl ''/viewer/unknown_scene'' None = None
   \<and> loadFromUrl ''/'' selected = selected
   \<and> loadFromUrl ''/'' None = None"
proof -
  have general: "loadFromUrl pathname selected =
     (let parts = path_parts pathname in
      if 2 \<le> length parts \<and> parts ! 0 = ''viewer'' \<and> parts ! 1 \<in> set SCENES
      then Some (makeScene (parts ! 1)) else selected)"
    using path_parts_nonempty[of _ pathname]
    by (auto simp: loadFromUrl_def findItemById_def Let_def split: list.splits)
  have aurora: "map_option scene_id (loadFromUrl ''/viewer/aurora'' selected) = Some ''aurora''"
    by (simp add: loadFromUrl_def path_parts_def findItemById_def SCENES_def makeScene_def)
  have unknown: "loadFromUrl ''/viewer/unknown_scene'' sel = sel" for sel
    by (simp add: loadFromUrl_def path_parts_def findItemById_def SCENES_def)
  have root: "loadFromUrl ''/'' sel = sel" for sel
    by (simp add: loadFromUrl_def path_parts_def)
  show ?thesis
    using general aurora unknown root by (simp add: path_parts_def)
qed

text \<open>
  Claim C10.  For every id of the catalog list the lookup returns a descriptor that
  carries the id and whose seven image paths are the files \<^verbatim>\<open>right.png\<close>,
  \<^verbatim>\<open>left.png\<close>, \<^verbatim>\<open>top.png\<close>, \<^verbatim>\<open>bottom.png\<close>, \<^verbatim>\<open>front.png\<close>,
  \<^verbatim>\<open>back.png\<close> and \<^verbatim>\<open>layout.png\<close> under \<^verbatim>\<open>/scenes/<id>/\<close>: the file
  names the sampler writes into its save directory.
\<close>

theorem findItemById_image_paths:
  "ident \<in> set SCENES \<Longrightarrow>
   \<exists>d. findItemById ident = Some d
     \<and> scene_id d = ident
     \<and> image_paths d =
         [''/scenes/'' @ ident @ ''/right.png'', ''/scenes/'' @ ident @ ''/left.png'',
          ''/scenes/'' @ ident @ ''/top.png'', ''/scenes/'' @ ident @ ''/bottom.png'',
          ''/scenes/'' @ ident @ ''/front.png'', ''/scenes/'' @ ident @ ''/back.png'',
          ''/scenes/'' @ ident @ ''/layout.png'']
     \<and> image_paths d = map (\<lambda>f. ''/scenes/'' @ ident @ ''/'' @ f) sampler_outputs"
  by (simp add: findItemById_def makeScene_def image_paths_def face_paths_def
      sampler_outputs_def)

theorem findItemById_image_paths_witness:
  "''mountains'' \<in> set SCENES
   \<and> (\<exists>d. findItemById ''mountains'' = Some d
          \<and> scene_id d = ''mountains''
          \<and> image_paths d =
              [''/scenes/mountains/right.png'', ''/scenes/mountains/left.png'',
               ''/scenes/mountains/top.png'', ''/scenes/mountains/bottom.png'',
               ''/scenes/mountains/front.png'', ''/scenes/mountains/back.png'',
               ''/scenes/mountains/layout.png''])"
proof -
  have member: "''mountains'' \<in> set SCENES"
    by (simp add: SCENES_def)
  show ?thesis
    using member findItemById_image_paths [OF member] by auto
qed

section \<open>Rotation: the quaternion arithmetic against the rotation it stands for\<close>

lemma half_cos: "cos (a::real) = (cos (a / 2))\<^sup>2 - (sin (a / 2))\<^sup>2"
  using cos_double [of "a / 2"] by simp

lemma half_sin: "sin (a::real) = 2 * sin (a / 2) * cos (a / 2)"
  using sin_double [of "a / 2"] by simp

lemma apply_pitch:
  "applyQuaternion v (setFromAxisAngle (Vector3 1 0 0) b) = rotate_about (Vector3 1 0 0) b v"
proof (cases v)
  case (Vector3 x y z)
  define s where "s = sin (b / 2)"
  define c where "c = cos (b / 2)"
  have unit: "s\<^sup>2 + c\<^sup>2 = 1" by (simp add: s_def c_def)
  have cb: "cos b = c\<^sup>2 - s\<^sup>2" unfolding s_def c_def by (rule half_cos)
  have sb: "sin b = 2 * s * c" unfolding s_def c_def by (rule half_sin)
  show ?thesis
    unfolding Vector3 rotate_about_def
    apply (simp add: Let_def cb sb s_def [symmetric] c_def [symmetric])
    using unit apply algebra
    done
qed

lemma apply_yaw:
  "applyQuaternion v (setFromAxisAngle (Vector3 0 1 0) a) = rotate_about (Vector3 0 1 0) a v"
proof (cases v)
  case (Vector3 x y z)
  define s where "s = sin (a / 2)"
  define c where "c = cos (a / 2)"
  have unit: "s\<^sup>2 + c\<^sup>2 = 1" by (simp add: s_def c_def)
  have cb: "cos a = c\<^sup>2 - s\<^sup>2" unfolding s_def c_def by (rule half_cos)
  have sb: "sin a = 2 * s * c" unfolding s_def c_def by (rule half_sin)
  show ?thesis
    unfolding Vector3 rotate_about_def
    apply (simp add: Let_def cb sb s_def [symmetric] c_def [symmetric])
    using unit apply algebra
    done
qed

lemma apply_product:
  "applyQuaternion v (multiply (setFromAxisAngle (Vector3 0 1 0) a)
                               (setFromAxisAngle (Vector3 1 0 0) b))
   = applyQuaternion (applyQuaternion v (setFromAxisAngle (Vector3 1 0 0) b))
       (setFromAxisAngle (Vector3 0 1 0) a)"
proof (cases v)
  case (Vector3 x y z)
  define s where "s = sin (a / 2)"
  define c where "c = cos (a / 2)"
  define t where "t = sin (b / 2)"
  define d where "d = cos (b / 2)"
  have unit_a: "s\<^sup>2 + c\<^sup>2 = 1" by (simp add: s_def c_def)
  have unit_b: "t\<^sup>2 + d\<^sup>2 = 1" by (simp add: t_def d_def)
  show ?thesis
    unfolding Vector3
    apply (simp add: Let_def s_def [symmetric] c_def [symmetric] t_def [symmetric]
        d_def [symmetric])
    using unit_a unit_b apply algebra
    done
qed

lemma rotated_position:
  "applyQuaternion v (multiply (setFromAxisAngle (Vector3 0 1 0) a)
                               (setFromAxisAngle (Vector3 1 0 0) b))
   = rotate_about (Vector3 0 1 0) a (rotate_about (Vector3 1 0 0) b v)"
  by (simp only: apply_product apply_pitch apply_yaw)

lemma rotate_unfold: "rotate_view a b s = rotate_spec a b s"
  unfolding rotate_view_def rotate_spec_def Let_def rotated_position by (rule refl)

lemma pitch_explicit:
  "rotate_about (Vector3 1 0 0) b (Vector3 x y z)
   = Vector3 x (y * cos b - z * sin b) (y * sin b + z * cos b)"
  by (simp add: rotate_about_def algebra_simps)

lemma yaw_explicit:
  "rotate_about (Vector3 0 1 0) a (Vector3 x y z)
   = Vector3 (x * cos a + z * sin a) y (z * cos a - x * sin a)"
  by (simp add: rotate_about_def algebra_simps)

lemma dot_pitch: "dot (rotate_about (Vector3 1 0 0) b v) (rotate_about (Vector3 1 0 0) b v) = dot v v"
proof (cases v)
  case (Vector3 x y z)
  have unit: "(sin b)\<^sup>2 + (cos b)\<^sup>2 = 1" by simp
  show ?thesis unfolding Vector3 pitch_explicit
    apply simp
    using unit apply algebra
    done
qed

lemma dot_yaw: "dot (rotate_about (Vector3 0 1 0) a v) (rotate_about (Vector3 0 1 0) a v) = dot v v"
proof (cases v)
  case (Vector3 x y z)
  have unit: "(sin a)\<^sup>2 + (cos a)\<^sup>2 = 1" by simp
  show ?thesis unfolding Vector3 yaw_explicit
    apply simp
    using unit apply algebra
    done
qed

lemma sub_add_cancel: "sub (add p t) t = p"
  by (cases p; cases t) simp

lemma add_sub_cancel: "add (sub p t) t = p"
  by (cases p; cases t) simp




section \<open>Pinch handler: the three cases of a move\<close>

lemma handleTouchMove_idle: "initialTouchDistance s = None \<Longrightarrow> handleTouchMove touches s = s"
  by (simp add: handleTouchMove_def)

lemma handleTouchMove_other: "length touches \<noteq> 2 \<Longrightarrow> handleTouchMove touches s = s"
  by (simp add: handleTouchMove_def)

lemma handleTouchMove_tracking:
  "length touches = 2 \<Longrightarrow> initialTouchDistance s = Some d0 \<Longrightarrow>
   getDistance touches = Some d \<Longrightarrow>
   handleTouchMove touches s =
     s\<lparr> camera := (camera s)\<lparr> fov := min (max (fov (camera s) + (d0 - d) * ZOOM_SENSITIVITY) 30) 100 \<rparr>,
        initialTouchDistance := Some d,
        calls := calls s @ [PreventDefault, UpdateProjectionMatrix] \<rparr>"
  by (simp add: handleTouchMove_def Let_def)

lemma rotate_about_length:
  "vlength (rotate_about (Vector3 0 1 0) a (rotate_about (Vector3 1 0 0) b v)) = vlength v"
  by (simp add: vlength_def dot_yaw dot_pitch)



lemma zoomed_out_fov:
  "fov (camera zoomed_out) = 100 \<and> initialTouchDistance zoomed_out = None"
  by (simp add: zoomed_out_def initial_viewer_def zoom_def Let_def DESKTOP_FOV_def)


lemma rotate_view_applies:
  "controlsRef s = Some ctl \<Longrightarrow>
   position (camera (rotate_view a b s))
   = add (applyQuaternion (sub (position (camera s)) (target ctl)) (rotation_quaternion a b))
       (target ctl)"
  by (simp add: rotate_view_def rotation_quaternion_def Let_def
      del: setFromAxisAngle.simps multiply.simps)



section \<open>Pinch handler over doubles: overflow\<close>

lemma two_touches_length: "length (two_touches x0 y0 x1 y1) = 2"
  by (simp add: two_touches_def)

lemma getDistance_ieee_start: "getDistance_ieee (two_touches 0 0 60 80) = Some (Finite 100)"
  by (simp add: two_touches_def js_sub_def rounded_def overflow_bound_def Let_def)

lemma getDistance_ieee_overflow:
  "getDistance_ieee (two_touches 0 0 (10 ^ 200) 0) = Some PosInfinity"
  by (simp add: two_touches_def js_sub_def rounded_def overflow_bound_def Let_def)

lemma handleTouchMove_ieee_tracking:
  "length touches = 2 \<Longrightarrow> initialTouchDistance_ieee s = Some d0 \<Longrightarrow>
   getDistance_ieee touches = Some d \<Longrightarrow>
   handleTouchMove_ieee touches s =
     s\<lparr> fov_ieee :=
          Math_min (Math_max (js_add (fov_ieee s) (js_mul (js_sub d0 d) (Finite ZOOM_SENSITIVITY)))
            (Finite 30)) (Finite 100),
        initialTouchDistance_ieee := Some d \<rparr>"
  by (simp add: handleTouchMove_ieee_def Let_def)

text \<open>The clamp does its work on every number but NaN.\<close>

lemma clamp_unless_NaN:
  "x \<noteq> NaN \<Longrightarrow>
   \<exists>r. Math_min (Math_max x (Finite 30)) (Finite 100) = Finite r \<and> 30 \<le> r \<and> r \<le> 100"
  by (cases x) auto

lemma clamp_NaN: "Math_min (Math_max NaN (Finite 30)) (Finite 100) = NaN"
  by simp

section \<open>View controller: properties\<close>

text \<open>
  Claim C1.  The field of view is meant to lie between 30 and 100 after every zoom
  mutation (the comment on the clamp in \<^verbatim>\<open>handleTouchMove\<close>: clamp FOV between a
  reasonable range, 30 to 100 degrees), whatever the magnitude of the deltas.  The pinch
  handler breaks this.  On a freshly mounted viewer (field of view 70), a touch start with
  the two points \<open>(0,0)\<close> and \<open>(60,80)\<close> records the distance 100.  A move to the points
  \<open>(0,0)\<close> and \<open>(1e200,0)\<close> squares \<open>1e200\<close>, which overflows: the distance is
  Infinity, the field of view is clamped to 30 and Infinity is recorded.  A second move
  to the same points subtracts Infinity from Infinity: the delta is NaN, the clamp
  returns NaN, and the field of view is NaN, outside the interval.
\<close>

theorem pinch_overflow_fov_NaN:
  "fov_ieee (handleTouchStart_ieee (two_touches 0 0 60 80) initial_pinch) = Finite 70
   \<and> initialTouchDistance_ieee (handleTouchStart_ieee (two_touches 0 0 60 80) initial_pinch)
       = Some (Finite 100)
   \<and> fov_ieee (handleTouchMove_ieee (two_touches 0 0 (10 ^ 200) 0)
       (handleTouchStart_ieee (two_touches 0 0 60 80) initial_pinch)) = Finite 30
   \<and> initialTouchDistance_ieee (handleTouchMove_ieee (two_touches 0 0 (10 ^ 200) 0)
       (handleTouchStart_ieee (two_touches 0 0 60 80) initial_pinch)) = Some PosInfinity
   \<and> fov_ieee (handleTouchMove_ieee (two_touches 0 0 (10 ^ 200) 0)
       (handleTouchMove_ieee (two_touches 0 0 (10 ^ 200) 0)
         (handleTouchStart_ieee (two_touches 0 0 60 80) initial_pinch))) = NaN"
proof -
  let ?start = "two_touches 0 0 60 80"
  let ?far = "two_touches 0 0 (10 ^ 200) 0"
  define s1 where "s1 = handleTouchStart_ieee ?start initial_pinch"
  define s2 where "s2 = handleTouchMove_ieee ?far s1"
  define s3 where "s3 = handleTouchMove_ieee ?far s2"
  have s1: "fov_ieee s1 = Finite 70" "initialTouchDistance_ieee s1 = Some (Finite 100)"
    by (simp_all add: s1_def handleTouchStart_ieee_def two_touches_length
        getDistance_ieee_start initial_pinch_def DESKTOP_FOV_def)
  have s2: "fov_ieee s2 = Finite 30" "initialTouchDistance_ieee s2 = Some PosInfinity"
    unfolding s2_def
      handleTouchMove_ieee_tracking [OF two_touches_length s1(2) getDistance_ieee_overflow]
    by (simp_all add: s1(1) js_sub_def ZOOM_SENSITIVITY_def)
  have s3: "fov_ieee s3 = NaN"
    unfolding s3_def
      handleTouchMove_ieee_tracking [OF two_touches_length s2(2) getDistance_ieee_overflow]
    by (simp add: s2(1) js_sub_def)
  show ?thesis
    using s1 s2 s3 unfolding s1_def s2_def s3_def by simp
qed

text \<open>
  Claim C7.  Reverting twice gives the same view state (field of view, camera position,
  orbit target) as reverting once, for one viewport width.
\<close>

theorem revertView_idempotent: "view_state (revertView w (revertView w s)) = view_state (revertView w s)"
  by (simp add: revertView_def view_state_def Let_def split: option.splits)


text \<open>
  Claim C8.  While the control handle is detached, \<^verbatim>\<open>rotate\<close>, \<^verbatim>\<open>zoom\<close> and
  \<^verbatim>\<open>revertView\<close> return the state as it is: no field is written and no library
  call is made.
\<close>

theorem detached_no_effect: "controlsRef s = None \<Longrightarrow> rotate_view a b s = s \<and> zoom f s = s \<and> revertView w s = s"
  by (simp add: rotate_view_def zoom_def revertView_def)


theorem detached_no_effect_witness:
  "controlsRef (initial_viewer\<lparr> controlsRef := None \<rparr>) = None
   \<and> rotate_view (1 / 10) 0 (initial_viewer\<lparr> controlsRef := None \<rparr>)
       = initial_viewer\<lparr> controlsRef := None \<rparr>
   \<and> zoom 5 (initial_viewer\<lparr> controlsRef := None \<rparr>)
       = initial_viewer\<lparr> controlsRef := None \<rparr>
   \<and> revertView 1024 (initial_viewer\<lparr> controlsRef := None \<rparr>)
       = initial_viewer\<lparr> controlsRef := None \<rparr>"
proof -
  have detached: "controlsRef (initial_viewer\<lparr> controlsRef := None \<rparr>) = None"
    by simp
  show ?thesis
    using detached detached_no_effect [OF detached, of "1 / 10" 0 5 1024] by simp
qed

text \<open>
  Claim C9.  \<^verbatim>\<open>rotate\<close> leaves the orbit target, the field of view and the length of
  the camera position relative to the target as they were; \<^verbatim>\<open>zoom\<close>, the wheel
  handler and the pinch handler leave the camera position and the orbit target as they
  were.  Only \<^verbatim>\<open>revertView\<close> writes the target.
\<close>

theorem rotate_zoom_frame: 
  "controlsRef (rotate_view a b s) = controlsRef s
   \<and> map_option vlength (relative_position (rotate_view a b s)) = map_option vlength (relative_position s)
   \<and> fov (camera (rotate_view a b s)) = fov (camera s)
   \<and> position (camera (zoom f s)) = position (camera s)
   \<and> controlsRef (zoom f s) = controlsRef s
   \<and> position (camera (handleWheel dy s)) = position (camera s)
   \<and> controlsRef (handleWheel dy s) = controlsRef s
   \<and> position (camera (handleTouchMove ts s)) = position (camera s)
   \<and> controlsRef (handleTouchMove ts s) = controlsRef s"
proof -
  have r1: "controlsRef (rotate_view a b s) = controlsRef s"
    by (simp add: rotate_view_def Let_def split: option.splits)
  have r2: "map_option vlength (relative_position (rotate_view a b s)) = map_option vlength (relative_position s)"
    unfolding rotate_unfold
    by (cases "controlsRef s") (simp_all add: rotate_spec_def relative_position_def Let_def sub_add_cancel rotate_about_length)
  have r3: "fov (camera (rotate_view a b s)) = fov (camera s)"
    by (simp add: rotate_view_def Let_def split: option.splits)
  have z: "position (camera (zoom f s)) = position (camera s) \<and> controlsRef (zoom f s) = controlsRef s"
    by (simp add: zoom_def Let_def split: option.splits)
  have w: "position (camera (handleWheel dy s)) = position (camera s) \<and> controlsRef (handleWheel dy s) = controlsRef s"
    by (simp add: handleWheel_def Let_def)
  have t: "position (camera (handleTouchMove ts s)) = position (camera s) \<and> controlsRef (handleTouchMove ts s) = controlsRef s"
    by (simp add: handleTouchMove_def Let_def split: option.splits bool.splits)
  show ?thesis using r1 r2 r3 z w t by simp
qed

text \<open>
  Claim C3.  \<^verbatim>\<open>rotate\<close> is the operation the specification describes: the quaternion
  built from the yaw about \<open>(0,1,0)\<close> with the pitch about \<open>(1,0,0)\<close> multiplied on
  its right, applied to the camera position relative to the target, rotates that vector
  by the pitch and then by the yaw; the target is added back; then
  \<^verbatim>\<open>lookAt(target)\<close> and \<^verbatim>\<open>update()\<close> are called, in this order.
\<close>

theorem rotate_refines_spec:
  "rotate_view yawDelta pitchDelta s = rotate_spec yawDelta pitchDelta s
   \<and> multiply (setFromAxisAngle (Vector3 0 1 0) yawDelta)
               (setFromAxisAngle (Vector3 1 0 0) pitchDelta)
       = Quaternion (cos (yawDelta / 2) * sin (pitchDelta / 2))
                    (sin (yawDelta / 2) * cos (pitchDelta / 2))
                    (- (sin (yawDelta / 2) * sin (pitchDelta / 2)))
                    (cos (yawDelta / 2) * cos (pitchDelta / 2))"
  by (simp add: rotate_unfold Let_def)




text \<open>
  Claim C4, amended.  A pinch that starts with two touches at distance 100: the move to
  distance 80 sets the field of view to the old value plus \<open>(100 - 80) * 0.15\<close>, clamped
  to the interval from 30 to 100 (so the increase is exactly 3 when the old value is
  between 27 and 97), and records the distance 80; a further move at distance 80 leaves
  the field of view as it is; the touch end clears the recorded distance; a touch start
  with one touch records nothing, and no sequence of moves after it changes the state.
\<close>

theorem pinch_sequence:
  fixes s :: viewer
  assumes "length start = 2" and "getDistance start = Some 100"
    and "length move = 2" and "getDistance move = Some 80"
    and "length move' = 2" and "getDistance move' = Some 80"
    and "length single = 1"
  defines "s1 \<equiv> handleTouchStart start s"
  defines "s2 \<equiv> handleTouchMove move s1"
  defines "s3 \<equiv> handleTouchMove move' s2"
  defines "s4 \<equiv> handleTouchEnd s3"
  defines "s5 \<equiv> handleTouchStart single s4"
  shows "fov (camera s2) = min (max (fov (camera s) + (100 - 80) * ZOOM_SENSITIVITY) 30) 100
    \<and> (27 \<le> fov (camera s) \<and> fov (camera s) \<le> 97
         \<longrightarrow> fov (camera s2) = fov (camera s) + (100 - 80) * ZOOM_SENSITIVITY)
    \<and> initialTouchDistance s2 = Some 80
    \<and> fov (camera s3) = fov (camera s2)
    \<and> initialTouchDistance s4 = None
    \<and> initialTouchDistance s5 = None
    \<and> run (map TouchMove later) s5 = s5"
proof -
  have i1: "initialTouchDistance s1 = Some 100" and f1: "fov (camera s1) = fov (camera s)"
    using assms(1,2) by (simp_all add: s1_def handleTouchStart_def)
  have m2: "s2 = s1\<lparr> camera := (camera s1)\<lparr> fov :=
                 min (max (fov (camera s1) + (100 - 80) * ZOOM_SENSITIVITY) 30) 100 \<rparr>,
               initialTouchDistance := Some 80,
               calls := calls s1 @ [PreventDefault, UpdateProjectionMatrix] \<rparr>"
    unfolding s2_def by (rule handleTouchMove_tracking [OF assms(3) i1 assms(4)])
  have f2: "fov (camera s2) = min (max (fov (camera s) + (100 - 80) * ZOOM_SENSITIVITY) 30) 100"
    by (simp add: m2 f1)
  have i2: "initialTouchDistance s2 = Some 80"
    by (simp add: m2)
  have f3: "fov (camera s3) = fov (camera s2)"
    unfolding s3_def handleTouchMove_tracking [OF assms(5) i2 assms(6)]
    by (simp add: f2)
  have i4: "initialTouchDistance s4 = None"
    by (simp add: s4_def handleTouchEnd_def)
  have i5: "initialTouchDistance s5 = None"
    using assms(7) by (simp add: s5_def handleTouchStart_def)
  have idle: "run (map TouchMove ms) s5 = s5" for ms
    by (induction ms) (simp_all add: handleTouchMove_idle [OF i5])
  have exact: "27 \<le> fov (camera s) \<and> fov (camera s) \<le> 97
         \<longrightarrow> fov (camera s2) = fov (camera s) + (100 - 80) * ZOOM_SENSITIVITY"
    using f2 by (simp add: ZOOM_SENSITIVITY_def)
  show ?thesis
    using f2 exact i2 f3 i4 i5 idle by blast
qed

theorem pinch_sequence_witness:
  "getDistance [\<lparr> clientX = 0, clientY = 0 \<rparr>, \<lparr> clientX = 60, clientY = 80 \<rparr>] = Some 100
   \<and> getDistance [\<lparr> clientX = 0, clientY = 0 \<rparr>, \<lparr> clientX = 48, clientY = 64 \<rparr>] = Some 80
   \<and> fov (camera initial_viewer) = 70
   \<and> fov (camera (handleTouchMove
         [\<lparr> clientX = 0, clientY = 0 \<rparr>, \<lparr> clientX = 48, clientY = 64 \<rparr>]
         (handleTouchStart
            [\<lparr> clientX = 0, clientY = 0 \<rparr>, \<lparr> clientX = 60, clientY = 80 \<rparr>]
            initial_viewer))) = 73"
proof -
  let ?start = "[\<lparr> clientX = 0, clientY = 0 \<rparr>, \<lparr> clientX = 60, clientY = (80::real) \<rparr>]"
  let ?move = "[\<lparr> clientX = 0, clientY = 0 \<rparr>, \<lparr> clientX = 48, clientY = (64::real) \<rparr>]"
  let ?single = "[\<lparr> clientX = 5, clientY = (5::real) \<rparr>]"
  have h: "length ?start = 2" "getDistance ?start = Some 100"
    "length ?move = 2" "getDistance ?move = Some 80" "length ?single = 1"
    by simp_all
  show ?thesis
    using h pinch_sequence [OF h(1) h(2) h(3) h(4) h(3) h(4) h(5), of initial_viewer "[]"]
    by (simp add: initial_viewer_def DESKTOP_FOV_def ZOOM_SENSITIVITY_def)
qed

text \<open>
  Without the clamp the claim fails: once six presses of the zoom-out button have taken
  the field of view to 100, the same pinch from distance 100 to distance 80 leaves it at
  100 and does not add 3.
\<close>

theorem pinch_increase_clamped:
  "getDistance [\<lparr> clientX = 0, clientY = 0 \<rparr>, \<lparr> clientX = 60, clientY = 80 \<rparr>] = Some 100
   \<and> getDistance [\<lparr> clientX = 0, clientY = 0 \<rparr>, \<lparr> clientX = 48, clientY = 64 \<rparr>] = Some 80
   \<and> fov (camera zoomed_out) = 100
   \<and> fov (camera (handleTouchMove
         [\<lparr> clientX = 0, clientY = 0 \<rparr>, \<lparr> clientX = 48, clientY = 64 \<rparr>]
         (handleTouchStart
            [\<lparr> clientX = 0, clientY = 0 \<rparr>, \<lparr> clientX = 60, clientY = 80 \<rparr>]
            zoomed_out))) = 100
   \<and> fov (camera (handleTouchMove
         [\<lparr> clientX = 0, clientY = 0 \<rparr>, \<lparr> clientX = 48, clientY = 64 \<rparr>]
         (handleTouchStart
            [\<lparr> clientX = 0, clientY = 0 \<rparr>, \<lparr> clientX = 60, clientY = 80 \<rparr>]
            zoomed_out)))
       \<noteq> fov (camera zoomed_out) + (100 - 80) * ZOOM_SENSITIVITY"
  by (simp add: zoomed_out_fov handleTouchStart_def handleTouchMove_def Let_def
      ZOOM_SENSITIVITY_def)

end
